theory Spec2Isabelle
  imports Main "HOL-Library.Word"
begin

section \<open>The chat transcript controller of \<^verbatim>\<open>App.tsx\<close>\<close>

text \<open>
  The embedding follows the latest version of the component \<^verbatim>\<open>App\<close> (the one
  with the \<^verbatim>\<open>localStorage\<close> effects and \<^verbatim>\<open>getOrCreateCid\<close>).  React state
  (\<^verbatim>\<open>messages\<close>, \<^verbatim>\<open>input\<close>, \<^verbatim>\<open>loading\<close>) is a record that every handler takes
  and returns; the \<^verbatim>\<open>async\<close> handler is cut at its \<^verbatim>\<open>await\<close> into the part that
  runs on the event and the part that runs when the request settles; what the browser
  decides (the clock, the outcome of \<^verbatim>\<open>fetch\<close>, \<^verbatim>\<open>Math.random\<close>, the JSON and
  Date codecs) is a parameter.
\<close>

subsection \<open>Strings\<close>

text \<open>A JavaScript string is a sequence of UTF-16 code units.\<close>

type_synonym jsstring = "16 word list"

text \<open>A string literal of the source whose characters are all ASCII.\<close>

definition utf16 :: "string \<Rightarrow> jsstring" where
  "utf16 s = map (\<lambda>c. of_nat (of_char c)) s"

text \<open>
  The code units \<^verbatim>\<open>String.prototype.trim\<close> strips: ECMAScript's WhiteSpace
  (TAB, VT, FF, ZWNBSP and the space separators) and LineTerminator (LF, CR, LS, PS).
\<close>

definition isWhiteSpace :: "16 word \<Rightarrow> bool" where
  "isWhiteSpace c \<longleftrightarrow>
     c \<in> set [0x0009, 0x000A, 0x000B, 0x000C, 0x000D, 0x0020, 0x00A0, 0x1680,
              0x2000, 0x2001, 0x2002, 0x2003, 0x2004, 0x2005, 0x2006, 0x2007,
              0x2008, 0x2009, 0x200A, 0x2028, 0x2029, 0x202F, 0x205F, 0x3000, 0xFEFF]"

definition trim :: "jsstring \<Rightarrow> jsstring" where
  "trim s = rev (dropWhile isWhiteSpace (rev (dropWhile isWhiteSpace s)))"

subsection \<open>JSON values\<close>

text \<open>
  The values \<^verbatim>\<open>JSON.parse\<close> and \<^verbatim>\<open>response.json()\<close> produce.  An object is the
  list of its own properties in order.  Numbers are the integers; fractional numerals
  are IEEE doubles and stay outside the embedding.
\<close>

datatype json =
    JNull
  | JBool bool
  | JNum int
  | JStr jsstring
  | JArr "json list"
  | JObj "(jsstring \<times> json) list"

text \<open>ToBoolean: \<^verbatim>\<open>null\<close>, \<^verbatim>\<open>false\<close>, \<^verbatim>\<open>0\<close> and \<^verbatim>\<open>""\<close> are falsy, arrays and objects truthy.\<close>

fun truthy :: "json \<Rightarrow> bool" where
  "truthy JNull = False"
| "truthy (JBool b) = b"
| "truthy (JNum n) = (n \<noteq> 0)"
| "truthy (JStr s) = (s \<noteq> [])"
| "truthy (JArr xs) = True"
| "truthy (JObj fs) = True"

datatype fault = NetworkError | SyntaxError | TypeError | QuotaExceededError

text \<open>
  Reading property \<open>k\<close> of a parsed value \<^verbatim>\<open>v.k\<close>, for a key that no prototype
  defines: \<^verbatim>\<open>null.k\<close> throws a TypeError, an object gives its own property or
  \<^verbatim>\<open>undefined\<close> (\<open>None\<close>), a primitive or an array gives \<^verbatim>\<open>undefined\<close>.
\<close>

fun getProperty :: "json \<Rightarrow> jsstring \<Rightarrow> fault + json option" where
  "getProperty JNull k = Inl TypeError"
| "getProperty (JObj fs) k = Inr (map_of fs k)"
| "getProperty v k = Inr None"

subsection \<open>Messages and the component state\<close>

text \<open>
  \<^verbatim>\<open>interface Message { id: number; text: string; sender: 'user' | 'bot' | 'loading';
  timestamp: Date }\<close>.  The fields \<^verbatim>\<open>id\<close> and \<^verbatim>\<open>text\<close> carry a suffix here.
  \<^item> \<open>text_msg\<close> is a JSON value: the interface declares a string, but the reply is
    read from an untyped payload (\<^verbatim>\<open>data.response\<close>, of type \<^verbatim>\<open>any\<close>), so at run
    time the field holds whatever truthy value the payload carries.
  \<^item> \<open>timestamp\<close> is the time value of a valid Date, in milliseconds since the epoch;
    \<^verbatim>\<open>new Date()\<close> creates no other kind.
\<close>

datatype sender = User | Bot | Loading

record message =
  id_msg :: int
  text_msg :: json
  sender :: sender
  timestamp :: int

record state =
  messages :: "message list"
  input :: jsstring
  loading :: bool

text \<open>The initial state of \<^verbatim>\<open>useState\<close>; \<open>now\<close> is the clock at the first render.\<close>

definition greeting :: "int \<Rightarrow> message" where
  "greeting now =
     \<lparr>id_msg = 1,
      text_msg = JStr (utf16 ''Hello! Ask me about one of our Brathay properties.''),
      sender = Bot,
      timestamp = now\<rparr>"

definition initial :: "int \<Rightarrow> state" where
  "initial now = \<lparr>messages = [greeting now], input = [], loading = False\<rparr>"

subsection \<open>The submit handler\<close>

text \<open>
  The one request the handler issues: URL, method (the field carries a suffix), headers
  and the document \<^verbatim>\<open>JSON.stringify\<close> serialises into the body.
\<close>

record request =
  url :: jsstring
  method_req :: jsstring
  headers :: "(jsstring \<times> jsstring) list"
  body :: json

definition query :: "jsstring \<Rightarrow> request" where
  "query userInput =
     \<lparr>url = utf16 ''https://chatbot-pd-fe.onrender.com/query'',
      method_req = utf16 ''POST'',
      headers = [(utf16 ''Content-Type'', utf16 ''application/json'')],
      body = JObj [(utf16 ''question'', JStr userInput)]\<rparr>"

text \<open>
  \<^verbatim>\<open>handleSendMessage\<close> up to its \<^verbatim>\<open>await fetch(...)\<close>.  \<open>rendered\<close> is the state of
  the render whose closure the handler is (it reads \<^verbatim>\<open>input\<close> and
  \<^verbatim>\<open>messages.length\<close> there); \<open>st\<close> is the state the queued updaters
  \<^verbatim>\<open>prev => ...\<close> apply to.  \<open>t1\<close> and \<open>t2\<close> are the two readings of the clock.
  The result is the new state and the request issued, if any.  The array
  \<^verbatim>\<open>memory\<close> that the handler builds next is read nowhere (the request body that
  would carry it is commented out) and is left out.
\<close>

definition handleSendMessage_sync ::
    "state \<Rightarrow> int \<Rightarrow> int \<Rightarrow> state \<Rightarrow> state \<times> request option" where
  "handleSendMessage_sync rendered t1 t2 st =
     (if trim (input rendered) = [] then (st, None)
      else
        let newUserMessage =
              \<lparr>id_msg = int (length (messages rendered)) + 1,
               text_msg = JStr (input rendered),
               sender = User,
               timestamp = t1\<rparr>;
            st1 = st\<lparr>messages := messages st @ [newUserMessage]\<rparr>;
            userInput = input rendered;
            st2 = st1\<lparr>input := []\<rparr>;
            st3 = st2\<lparr>loading := True\<rparr>;
            loadingMessage =
              \<lparr>id_msg = int (length (messages rendered)) + 2,
               text_msg = JStr [0x2026],
               sender = Loading,
               timestamp = t2\<rparr>;
            st4 = st3\<lparr>messages := messages st3 @ [loadingMessage]\<rparr>
        in (st4, Some (query userInput)))"

text \<open>
  How the request settles: \<^verbatim>\<open>fetch\<close> rejects, or it resolves and
  \<^verbatim>\<open>response.json()\<close> rejects (the body is not JSON), or the body parses to a value.
\<close>

datatype outcome = FetchRejected | JsonRejected | Parsed json

definition noResponse :: jsstring where
  "noResponse = utf16 ''Sorry, no response received.''"

definition unreachable :: jsstring where
  "unreachable = utf16 ''Error: Unable to reach the chatbot service.''"

text \<open>
  The body of the \<^verbatim>\<open>try\<close> block up to \<^verbatim>\<open>botReply\<close>:
  \<^verbatim>\<open>const data = await response.json(); const botReply = data.response || '...'\<close>.
\<close>

definition botReply :: "outcome \<Rightarrow> fault + json" where
  "botReply oc =
     (case oc of
        FetchRejected \<Rightarrow> Inl NetworkError
      | JsonRejected \<Rightarrow> Inl SyntaxError
      | Parsed data \<Rightarrow>
          (case getProperty data (utf16 ''response'') of
             Inl e \<Rightarrow> Inl e
           | Inr None \<Rightarrow> Inr (JStr noResponse)
           | Inr (Some v) \<Rightarrow> Inr (if truthy v then v else JStr noResponse)))"

text \<open>The updater both branches queue: drop the placeholders, append the bot message.\<close>

definition settled :: "json \<Rightarrow> int \<Rightarrow> message list \<Rightarrow> message list" where
  "settled txt now prev =
     filter (\<lambda>msg. sender msg \<noteq> Loading) prev @
     [\<lparr>id_msg = int (length prev) + 1, text_msg = txt, sender = Bot, timestamp = now\<rparr>]"

text \<open>
  \<^verbatim>\<open>handleSendMessage\<close> from the \<^verbatim>\<open>await\<close> on: the rest of \<^verbatim>\<open>try\<close>, or
  \<^verbatim>\<open>catch\<close>, and then \<^verbatim>\<open>finally\<close>.  \<open>now\<close> is the clock when the bot message is
  built.
\<close>

definition handleSendMessage_settle :: "outcome \<Rightarrow> int \<Rightarrow> state \<Rightarrow> state" where
  "handleSendMessage_settle oc now st =
     (let st1 =
            (case botReply oc of
               Inr reply \<Rightarrow> st\<lparr>messages := settled reply now (messages st)\<rparr>
             | Inl error \<Rightarrow> st\<lparr>messages := settled (JStr unreachable) now (messages st)\<rparr>)
      in st1\<lparr>loading := False\<rparr>)"

text \<open>The whole handler, from the event to the end of \<^verbatim>\<open>finally\<close>.\<close>

definition handleSendMessage ::
    "state \<Rightarrow> int \<Rightarrow> int \<Rightarrow> outcome \<Rightarrow> int \<Rightarrow> state \<Rightarrow> state" where
  "handleSendMessage rendered t1 t2 oc t3 st =
     (case handleSendMessage_sync rendered t1 t2 st of
        (st', None) \<Rightarrow> st'
      | (st', Some req) \<Rightarrow> handleSendMessage_settle oc t3 st')"

subsection \<open>The component under its events\<close>

text \<open>
  A running component: its state and the request in flight, if any.  The events are a
  change of the text field, a click on the send button (or Enter in the text field,
  both call \<^verbatim>\<open>handleSendMessage\<close>) and the settling of the request in flight.
  The text field is rendered \<^verbatim>\<open>disabled={loading}\<close> and the button
  \<^verbatim>\<open>disabled={input.trim() === '' || loading}\<close>, so while \<^verbatim>\<open>loading\<close> holds
  neither a change nor a send reaches the component.  React renders again between two
  events, so the handler that runs is the closure of the current state.
\<close>

record session =
  ui :: state
  pending :: "request option"

datatype event =
    Change jsstring
  | Send int int
  | Settle outcome int

fun step :: "event \<Rightarrow> session \<Rightarrow> session" where
  "step (Change v) s =
     (if loading (ui s) then s else s\<lparr>ui := (ui s)\<lparr>input := v\<rparr>\<rparr>)"
| "step (Send t1 t2) s =
     (if loading (ui s) then s
      else
        (case handleSendMessage_sync (ui s) t1 t2 (ui s) of
           (st', None) \<Rightarrow> s\<lparr>ui := st'\<rparr>
         | (st', Some req) \<Rightarrow> s\<lparr>ui := st', pending := Some req\<rparr>))"
| "step (Settle oc now) s =
     (case pending s of
        None \<Rightarrow> s
      | Some req \<Rightarrow> s\<lparr>ui := handleSendMessage_settle oc now (ui s), pending := None\<rparr>)"

fun run :: "session \<Rightarrow> event list \<Rightarrow> session" where
  "run s [] = s"
| "run s (e # es) = run (step e s) es"

definition start :: "int \<Rightarrow> session" where
  "start now = \<lparr>ui = initial now, pending = None\<rparr>"

subsection \<open>Local storage\<close>

text \<open>
  \<^verbatim>\<open>localStorage\<close>: the stored items, and whether the browser refuses writes (the
  quota is exhausted), in which case \<^verbatim>\<open>setItem\<close> throws.
\<close>

record storage =
  items :: "jsstring \<rightharpoonup> jsstring"
  full :: bool

definition getItem :: "storage \<Rightarrow> jsstring \<Rightarrow> jsstring option" where
  "getItem s k = items s k"

definition setItem :: "storage \<Rightarrow> jsstring \<Rightarrow> jsstring \<Rightarrow> fault + storage" where
  "setItem s k v =
     (if full s then Inl QuotaExceededError else Inr (s\<lparr>items := (items s)(k \<mapsto> v)\<rparr>))"

subsection \<open>The conversation id\<close>


subsection \<open>Saving and restoring the transcript\<close>

text \<open>
  The browser's codecs, as parameters: \<^verbatim>\<open>JSON.stringify\<close> (from a document to its
  text), \<^verbatim>\<open>JSON.parse\<close> (\<open>None\<close> when it throws a SyntaxError),
  \<^verbatim>\<open>Date.prototype.toISOString\<close> of a time value and \<^verbatim>\<open>Date.parse\<close> of a string
  (\<open>None\<close> when the result is NaN).
\<close>

record platform =
  JSON_stringify :: "json \<Rightarrow> jsstring"
  JSON_parse :: "jsstring \<Rightarrow> json option"
  toISOString :: "int \<Rightarrow> jsstring"
  Date_parse :: "jsstring \<Rightarrow> int option"

fun senderTag :: "sender \<Rightarrow> jsstring" where
  "senderTag User = utf16 ''user''"
| "senderTag Bot = utf16 ''bot''"
| "senderTag Loading = utf16 ''loading''"

definition senderOfTag :: "jsstring \<Rightarrow> sender option" where
  "senderOfTag tag =
     (if tag = utf16 ''user'' then Some User
      else if tag = utf16 ''bot'' then Some Bot
      else if tag = utf16 ''loading'' then Some Loading
      else None)"

text \<open>
  The document \<^verbatim>\<open>JSON.stringify\<close> serialises for a message: its four properties in
  the order of the object literals, the Date through \<^verbatim>\<open>toJSON\<close>; and the document
  for the array \<^verbatim>\<open>messages\<close>.
\<close>

definition toJSON :: "platform \<Rightarrow> message \<Rightarrow> json" where
  "toJSON pf m =
     JObj [(utf16 ''id'', JNum (id_msg m)),
           (utf16 ''text'', text_msg m),
           (utf16 ''sender'', JStr (senderTag (sender m))),
           (utf16 ''timestamp'', JStr (toISOString pf (timestamp m)))]"

text \<open>
  The effect on \<^verbatim>\<open>[messages]\<close>:
  \<^verbatim>\<open>try { localStorage.setItem('chat.messages', JSON.stringify(messages)) } catch {}\<close>.
\<close>

definition transcriptJSON :: "platform \<Rightarrow> message list \<Rightarrow> json" where
  "transcriptJSON pf msgs = JArr (map (toJSON pf) msgs)"

definition persist :: "platform \<Rightarrow> message list \<Rightarrow> storage \<Rightarrow> storage" where
  "persist pf msgs s =
     (case setItem s (utf16 ''chat.messages'') (JSON_stringify pf (transcriptJSON pf msgs)) of
        Inl e \<Rightarrow> s
      | Inr s' \<Rightarrow> s')"

text \<open>
  \<^verbatim>\<open>new Date(v)\<close> for a property \<open>v\<close> of a parsed object (\<open>None\<close> when the property
  is missing).  The result is the time value of the Date, and \<open>None\<close> for an Invalid
  Date; an array or an object is first converted to a string, which is not modelled and
  gives \<open>None\<close> as well.
\<close>

fun newDate :: "platform \<Rightarrow> json option \<Rightarrow> int option" where
  "newDate pf None = None"
| "newDate pf (Some JNull) = Some 0"
| "newDate pf (Some (JBool b)) = Some (if b then 1 else 0)"
| "newDate pf (Some (JNum n)) = (if \<bar>n\<bar> \<le> 8640000000000000 then Some n else None)"
| "newDate pf (Some (JStr s)) = Date_parse pf s"
| "newDate pf (Some (JArr xs)) = None"
| "newDate pf (Some (JObj fs)) = None"

text \<open>
  The callback \<^verbatim>\<open>(m: any) => ({ ...m, timestamp: new Date(m.timestamp) })\<close>.
  On \<^verbatim>\<open>null\<close> it throws (\<^verbatim>\<open>m.timestamp\<close>).  The result is \<open>Some\<close> message when
  the value it builds is a Message of the interface with a valid Date (its properties
  are exactly \<^verbatim>\<open>id\<close>, \<^verbatim>\<open>text\<close>, \<^verbatim>\<open>sender\<close> and \<^verbatim>\<open>timestamp\<close>, of the declared
  kinds), and \<open>None\<close> when it is some other value, which the record cannot hold.
\<close>

definition fromObject :: "platform \<Rightarrow> (jsstring \<times> json) list \<Rightarrow> message option" where
  "fromObject pf fs =
     (case (map_of fs (utf16 ''id''), map_of fs (utf16 ''text''), map_of fs (utf16 ''sender''),
            newDate pf (map_of fs (utf16 ''timestamp''))) of
        (Some (JNum n), Some txt, Some (JStr tag), Some t) \<Rightarrow>
          (case senderOfTag tag of
             Some who \<Rightarrow>
               if length fs = 4
               then Some \<lparr>id_msg = n, text_msg = txt, sender = who, timestamp = t\<rparr>
               else None
           | None \<Rightarrow> None)
      | _ \<Rightarrow> None)"

fun revive :: "platform \<Rightarrow> json \<Rightarrow> fault + message option" where
  "revive pf JNull = Inl TypeError"
| "revive pf (JObj fs) = Inr (fromObject pf fs)"
| "revive pf v = Inr None"

text \<open>\<^verbatim>\<open>Array.prototype.map\<close> with that callback: the first exception ends it.\<close>

fun mapRevive :: "platform \<Rightarrow> json list \<Rightarrow> fault + message option list" where
  "mapRevive pf [] = Inr []"
| "mapRevive pf (m # ms) =
     (case revive pf m of
        Inl e \<Rightarrow> Inl e
      | Inr x \<Rightarrow>
          (case mapRevive pf ms of
             Inl e \<Rightarrow> Inl e
           | Inr xs \<Rightarrow> Inr (x # xs)))"

text \<open>
  The effect on mount.  \<open>Keep\<close>: \<^verbatim>\<open>setMessages\<close> is not called (nothing stored, an
  exception swallowed by \<^verbatim>\<open>catch {}\<close>, or an empty array).  \<open>Replace\<close>:
  \<^verbatim>\<open>setMessages(parsed)\<close>.  \<open>Untyped\<close>: \<^verbatim>\<open>setMessages\<close> is called with an array
  that holds a value which is no Message.
\<close>

datatype restored = Keep | Replace "message list" | Untyped

definition restore :: "platform \<Rightarrow> storage \<Rightarrow> restored" where
  "restore pf s =
     (case getItem s (utf16 ''chat.messages'') of
        None \<Rightarrow> Keep
      | Some raw \<Rightarrow>
          if raw = [] then Keep
          else
            (case JSON_parse pf raw of
               None \<Rightarrow> Keep
             | Some (JArr elems) \<Rightarrow>
                 (case mapRevive pf elems of
                    Inl e \<Rightarrow> Keep
                  | Inr parsed \<Rightarrow>
                      if parsed = [] then Keep
                      else
                        (case those parsed of
                           Some msgs \<Rightarrow> Replace msgs
                         | None \<Rightarrow> Untyped))
             | Some v \<Rightarrow> Keep))"

text \<open>
  Mounting the component at time \<open>now\<close> over a storage: the first render has the
  greeting; the restore effect reads the storage, then the persist effect writes the
  greeting; when the restore effect has set the transcript, the next render's persist
  effect writes it back.  \<open>None\<close> when the transcript leaves the Message interface.
\<close>

definition mount :: "platform \<Rightarrow> int \<Rightarrow> storage \<Rightarrow> (state \<times> storage) option" where
  "mount pf now s =
     (let st0 = initial now;
          r = restore pf s;
          s1 = persist pf (messages st0) s
      in case r of
           Keep \<Rightarrow> Some (st0, s1)
         | Replace msgs \<Rightarrow> Some (st0\<lparr>messages := msgs\<rparr>, persist pf msgs s1)
         | Untyped \<Rightarrow> None)"

text \<open>
  Loading the page again: a fresh component is mounted on the storage, and the request
  the old page had in flight, if any, is gone with it.
\<close>

definition reload :: "platform \<Rightarrow> int \<Rightarrow> storage \<Rightarrow> (session \<times> storage) option" where
  "reload pf now s =
     (case mount pf now s of
        None \<Rightarrow> None
      | Some (st, s') \<Rightarrow> Some (\<lparr>ui = st, pending = None\<rparr>, s'))"

subsection \<open>Predicates and example states\<close>

text \<open>The number of loading placeholders in a transcript.\<close>

definition placeholders :: "message list \<Rightarrow> nat" where
  "placeholders msgs = length (filter (\<lambda>msg. sender msg = Loading) msgs)"

text \<open>
  The invariant of the running component: a request is in flight exactly when
  \<^verbatim>\<open>loading\<close> holds, no message but the last is a placeholder, and the last one is a
  placeholder exactly when \<^verbatim>\<open>loading\<close> holds.
\<close>

definition consistent :: "session \<Rightarrow> bool" where
  "consistent s \<longleftrightarrow>
     (pending s = None) = (\<not> loading (ui s)) \<and>
     placeholders (butlast (messages (ui s))) = 0 \<and>
     messages (ui s) \<noteq> [] \<and>
     (sender (last (messages (ui s))) = Loading) = loading (ui s)"

text \<open>
  The scenario of the spec's section 8: the component mounted at time 0 with \<open>v\<close>
  typed into the text field, and its state after \<^verbatim>\<open>"hello"\<close> was sent (the clock
  reading 1 and 2).
\<close>

definition typed :: "jsstring \<Rightarrow> state" where
  "typed v = (initial 0)\<lparr>input := v\<rparr>"

definition asked :: state where
  "asked = fst (handleSendMessage_sync (typed (utf16 ''hello'')) 1 2 (typed (utf16 ''hello'')))"

text \<open>
  A table of the browser's codecs at the texts of the scenario: the JSON text of the
  transcript \<open>asked\<close> persisted with every Date at the epoch, and the ISO string of
  the epoch.  Elsewhere the table is blank (the empty string, \<open>None\<close>).
\<close>

definition epochISO :: jsstring where
  "epochISO = utf16 ''1970-01-01T00:00:00.000Z''"

definition askedAtEpoch :: "message list" where
  "askedAtEpoch = map (\<lambda>m. m\<lparr>timestamp := 0\<rparr>) (messages asked)"

definition askedText :: jsstring where
  \<open>askedText =
     utf16 ''[{"id":1,"text":"Hello! Ask me about one of our Brathay properties.","sender":"bot","timestamp":"1970-01-01T00:00:00.000Z"},'' @
     utf16 ''{"id":2,"text":"hello","sender":"user","timestamp":"1970-01-01T00:00:00.000Z"},'' @
     utf16 ''{"id":3,"text":"'' @ [0x2026] @
     utf16 ''","sender":"loading","timestamp":"1970-01-01T00:00:00.000Z"}]''\<close>

definition askedDocument :: json where
  "askedDocument =
     JArr (map (\<lambda>m. JObj [(utf16 ''id'', JNum (id_msg m)),
                           (utf16 ''text'', text_msg m),
                           (utf16 ''sender'', JStr (senderTag (sender m))),
                           (utf16 ''timestamp'', JStr epochISO)]) askedAtEpoch)"

definition table :: platform where
  "table =
     \<lparr>JSON_stringify = (\<lambda>d. if d = askedDocument then askedText else []),
      JSON_parse = (\<lambda>raw. if raw = askedText then Some askedDocument else None),
      toISOString = (\<lambda>t. if t = 0 then epochISO else []),
      Date_parse = (\<lambda>str. if str = epochISO then Some 0 else None)\<rparr>"

text \<open>An empty storage that accepts writes.\<close>

definition emptyStorage :: storage where
  "emptyStorage = \<lparr>items = Map.empty, full = False\<rparr>"

section \<open>Properties\<close>

subsection \<open>Auxiliary facts\<close>

lemma botReply_Parsed:
  "botReply (Parsed d) =
     (if d = JNull then Inl TypeError
      else Inr (case getProperty d (utf16 ''response'') of
                  Inr (Some v) \<Rightarrow> if truthy v then v else JStr noResponse
                | _ \<Rightarrow> JStr noResponse))"
  by (cases d) (simp_all add: botReply_def split: option.splits)

lemma botReply_fault:
  "(\<exists>e. botReply oc = Inl e) \<longleftrightarrow> oc \<in> {FetchRejected, JsonRejected, Parsed JNull}"
proof (cases oc)
  case (Parsed d)
  then show ?thesis
    by (simp add: botReply_Parsed)
qed (simp_all add: botReply_def)

lemma noResponse_nonempty: "noResponse \<noteq> []"
  by (simp add: noResponse_def utf16_def)

lemma asked_eq:
  "asked =
     \<lparr>messages =
        [greeting 0,
         \<lparr>id_msg = 2, text_msg = JStr (utf16 ''hello''), sender = User, timestamp = 1\<rparr>,
         \<lparr>id_msg = 3, text_msg = JStr [0x2026], sender = Loading, timestamp = 2\<rparr>],
      input = [], loading = True\<rparr>"
  by (simp add: asked_def typed_def handleSendMessage_sync_def initial_def Let_def trim_def
        utf16_def isWhiteSpace_def)

lemma placeholders_Nil [simp]: "placeholders [] = 0"
  by (simp add: placeholders_def)

lemma placeholders_Cons [simp]:
  "placeholders (m # ms) = (if sender m = Loading then 1 else 0) + placeholders ms"
  by (simp add: placeholders_def)

lemma placeholders_append [simp]:
  "placeholders (xs @ ys) = placeholders xs + placeholders ys"
  by (simp add: placeholders_def)

lemma placeholders_filter [simp]:
  "placeholders (filter (\<lambda>msg. sender msg \<noteq> Loading) xs) = 0"
  by (induction xs) simp_all

lemma placeholders_split:
  "xs \<noteq> [] \<Longrightarrow>
   placeholders xs = placeholders (butlast xs) + (if sender (last xs) = Loading then 1 else 0)"
  by (induction xs rule: rev_induct) simp_all

lemma consistent_start: "consistent (start now)"
  by (simp add: consistent_def start_def initial_def greeting_def)

lemma consistent_step:
  assumes c: "consistent s"
  shows "consistent (step e s)"
proof (cases e)
  case (Change v)
  with c show ?thesis
    by (simp add: consistent_def)
next
  case (Send t1 t2)
  show ?thesis
  proof (cases "loading (ui s) \<or> trim (input (ui s)) = []")
    case True
    with c Send show ?thesis
      by (auto simp: handleSendMessage_sync_def consistent_def)
  next
    case False
    with c have "placeholders (messages (ui s)) = 0"
      by (simp add: consistent_def placeholders_split)
    with c False Send show ?thesis
      by (simp add: handleSendMessage_sync_def consistent_def Let_def butlast_append)
  qed
next
  case (Settle oc now)
  show ?thesis
  proof (cases "pending s")
    case None
    with c Settle show ?thesis by simp
  next
    case (Some req)
    with c Settle show ?thesis
      by (simp add: consistent_def handleSendMessage_settle_def settled_def Let_def
               split: sum.splits)
  qed
qed

lemma consistent_run: "consistent s \<Longrightarrow> consistent (run s evs)"
  by (induction evs arbitrary: s) (simp_all add: consistent_step)

lemma consistent_placeholders:
  "consistent s \<Longrightarrow> placeholders (messages (ui s)) = (if loading (ui s) then 1 else 0)"
  by (simp add: consistent_def placeholders_split)

lemma settle_replaces:
  "pending s = Some req \<Longrightarrow>
   placeholders (messages (ui (step (Settle oc now) s))) = 0 \<and>
   sender (last (messages (ui (step (Settle oc now) s)))) = Bot"
  by (simp add: handleSendMessage_settle_def settled_def Let_def split: sum.splits)

lemma those_map_Some: "those (map Some xs) = Some xs"
  by (induction xs) simp_all

lemma senderOfTag_senderTag: "senderOfTag (senderTag who) = Some who"
  by (cases who) (simp_all add: senderOfTag_def utf16_def)

lemma revive_toJSON:
  "Date_parse pf (toISOString pf (timestamp m)) = Some (timestamp m) \<Longrightarrow>
   revive pf (toJSON pf m) = Inr (Some m)"
  by (simp add: toJSON_def fromObject_def senderOfTag_senderTag utf16_def)

lemma mapRevive_toJSON:
  "\<forall>m\<in>set msgs. Date_parse pf (toISOString pf (timestamp m)) = Some (timestamp m) \<Longrightarrow>
   mapRevive pf (map (toJSON pf) msgs) = Inr (map Some msgs)"
  by (induction msgs) (simp_all add: revive_toJSON)

lemma getItem_persist:
  "\<not> full s \<Longrightarrow>
   getItem (persist pf msgs s) (utf16 ''chat.messages'') =
     Some (JSON_stringify pf (transcriptJSON pf msgs))"
  by (simp add: persist_def setItem_def getItem_def)

lemma restore_persist:
  assumes "msgs \<noteq> []" and "\<not> full s"
    and "JSON_stringify pf (transcriptJSON pf msgs) \<noteq> []"
    and "JSON_parse pf (JSON_stringify pf (transcriptJSON pf msgs)) = Some (transcriptJSON pf msgs)"
    and "\<forall>m\<in>set msgs. Date_parse pf (toISOString pf (timestamp m)) = Some (timestamp m)"
  shows "restore pf (persist pf msgs s) = Replace msgs"
  using assms
  by (simp add: restore_def getItem_persist transcriptJSON_def mapRevive_toJSON those_map_Some)

lemma mount_persist:
  assumes "msgs \<noteq> []" and "\<not> full s"
    and "JSON_stringify pf (transcriptJSON pf msgs) \<noteq> []"
    and "JSON_parse pf (JSON_stringify pf (transcriptJSON pf msgs)) = Some (transcriptJSON pf msgs)"
    and "\<forall>m\<in>set msgs. Date_parse pf (toISOString pf (timestamp m)) = Some (timestamp m)"
  shows "map_option fst (mount pf now (persist pf msgs s)) =
     Some \<lparr>messages = msgs, input = [], loading = False\<rparr>"
  using restore_persist [OF assms]
  by (simp add: mount_def Let_def initial_def)

lemma askedAtEpoch_eq:
  "askedAtEpoch =
     [greeting 0,
      \<lparr>id_msg = 2, text_msg = JStr (utf16 ''hello''), sender = User, timestamp = 0\<rparr>,
      \<lparr>id_msg = 3, text_msg = JStr [0x2026], sender = Loading, timestamp = 0\<rparr>]"
  by (simp add: askedAtEpoch_def asked_eq greeting_def)

lemma table_asked:
  "transcriptJSON table askedAtEpoch = askedDocument \<and>
   JSON_stringify table askedDocument = askedText \<and>
   JSON_parse table askedText = Some askedDocument \<and>
   askedText \<noteq> [] \<and>
   (\<forall>m\<in>set askedAtEpoch. Date_parse table (toISOString table (timestamp m)) = Some (timestamp m))"
  by (simp add: transcriptJSON_def toJSON_def askedDocument_def table_def askedAtEpoch_eq
        greeting_def askedText_def)

subsection \<open>The settled reply\<close>

text \<open>
  Claim C1, as amended.  When the request resolves and its body parses to a value other
  than \<^verbatim>\<open>null\<close>, the handler drops every loading placeholder and appends exactly one
  bot message, numbered by the length of the transcript before the filter, plus one.
  Its text is the payload's \<^verbatim>\<open>response\<close> property when that is truthy, and the
  text \<^verbatim>\<open>'Sorry, no response received.'\<close> when it is missing or falsy (the empty
  string, \<^verbatim>\<open>null\<close>, \<^verbatim>\<open>false\<close>, \<^verbatim>\<open>0\<close>).  The text is never the empty string.
\<close>

theorem settle_parsed_appends_reply:
  "data \<noteq> JNull \<Longrightarrow>
   messages (handleSendMessage_settle (Parsed data) now st) =
     filter (\<lambda>msg. sender msg \<noteq> Loading) (messages st) @
     [\<lparr>id_msg = int (length (messages st)) + 1,
       text_msg =
         (case getProperty data (utf16 ''response'') of
            Inr (Some v) \<Rightarrow> if truthy v then v else JStr (utf16 ''Sorry, no response received.'')
          | _ \<Rightarrow> JStr (utf16 ''Sorry, no response received.'')),
       sender = Bot,
       timestamp = now\<rparr>]
   \<and> text_msg (last (messages (handleSendMessage_settle (Parsed data) now st))) \<noteq> JStr []"
proof -
  assume d: "data \<noteq> JNull"
  have n: "utf16 ''Sorry, no response received.'' = noResponse"
    by (simp add: noResponse_def)
  from d show ?thesis
    unfolding n
    by (auto simp: handleSendMessage_settle_def botReply_Parsed settled_def noResponse_nonempty
          split: sum.splits option.splits)
qed

text \<open>
  The spec's scenarios: after \<^verbatim>\<open>"hello"\<close>, the reply \<^verbatim>\<open>{"response": "hi there"}\<close>
  gives greeting, user message and bot message \<^verbatim>\<open>"hi there"\<close>.
\<close>

theorem settle_parsed_appends_reply_witness:
  "JObj [(utf16 ''response'', JStr (utf16 ''hi there''))] \<noteq> JNull \<and>
   messages (handleSendMessage_settle
      (Parsed (JObj [(utf16 ''response'', JStr (utf16 ''hi there''))])) 3 asked) =
     [greeting 0,
      \<lparr>id_msg = 2, text_msg = JStr (utf16 ''hello''), sender = User, timestamp = 1\<rparr>,
      \<lparr>id_msg = 4, text_msg = JStr (utf16 ''hi there''), sender = Bot, timestamp = 3\<rparr>]"
  using settle_parsed_appends_reply
    [of "JObj [(utf16 ''response'', JStr (utf16 ''hi there''))]" 3 asked]
  by (simp add: asked_eq greeting_def utf16_def)

text \<open>
  The claim as stated fails at two payloads.  The body \<^verbatim>\<open>null\<close> parses, but
  \<^verbatim>\<open>data.response\<close> throws and the \<^verbatim>\<open>catch\<close> branch appends the error text, not
  the fallback.  In \<^verbatim>\<open>{"response": false}\<close> the property is neither absent nor
  empty, and the text is the fallback, not the property.
\<close>

theorem settle_parsed_counterexample:
  "text_msg (last (messages (handleSendMessage_settle (Parsed JNull) 3 asked))) =
     JStr (utf16 ''Error: Unable to reach the chatbot service.'') \<and>
   text_msg (last (messages (handleSendMessage_settle (Parsed JNull) 3 asked))) \<noteq>
     JStr (utf16 ''Sorry, no response received.'') \<and>
   getProperty (JObj [(utf16 ''response'', JBool False)]) (utf16 ''response'') =
     Inr (Some (JBool False)) \<and>
   text_msg (last (messages (handleSendMessage_settle
       (Parsed (JObj [(utf16 ''response'', JBool False)])) 3 asked))) =
     JStr (utf16 ''Sorry, no response received.'')"
  by (simp add: handleSendMessage_settle_def botReply_def settled_def unreachable_def
        noResponse_def utf16_def)

text \<open>
  Claim C2, as amended.  When the \<^verbatim>\<open>try\<close> block throws (\<^verbatim>\<open>fetch\<close> rejects,
  \<^verbatim>\<open>response.json()\<close> rejects, or reading \<^verbatim>\<open>data.response\<close> throws), the handler
  drops every loading placeholder and appends exactly one bot message whose text is
  \<^verbatim>\<open>'Error: Unable to reach the chatbot service.'\<close>; it ends in a state, with
  \<^verbatim>\<open>loading\<close> false and the text field untouched: the fault goes no further.
\<close>

theorem settle_fault_appends_error:
  "botReply oc = Inl e \<Longrightarrow>
   handleSendMessage_settle oc now st =
     \<lparr>messages =
        filter (\<lambda>msg. sender msg \<noteq> Loading) (messages st) @
        [\<lparr>id_msg = int (length (messages st)) + 1,
          text_msg = JStr (utf16 ''Error: Unable to reach the chatbot service.''),
          sender = Bot,
          timestamp = now\<rparr>],
      input = input st,
      loading = False\<rparr>"
  by (simp add: handleSendMessage_settle_def settled_def unreachable_def)

theorem settle_fault_appends_error_witness:
  "botReply FetchRejected = Inl NetworkError \<and>
   botReply JsonRejected = Inl SyntaxError \<and>
   handleSendMessage_settle FetchRejected 3 asked =
     \<lparr>messages =
        [greeting 0,
         \<lparr>id_msg = 2, text_msg = JStr (utf16 ''hello''), sender = User, timestamp = 1\<rparr>,
         \<lparr>id_msg = 4, text_msg = JStr (utf16 ''Error: Unable to reach the chatbot service.''),
          sender = Bot, timestamp = 3\<rparr>],
      input = [], loading = False\<rparr>"
  using settle_fault_appends_error [of FetchRejected NetworkError 3 asked]
  by (simp add: botReply_def asked_eq greeting_def)

text \<open>The text the claim quotes is not the text of the source.\<close>

theorem settle_fault_counterexample:
  "text_msg (last (messages (handleSendMessage_settle FetchRejected 3 asked))) \<noteq>
     JStr (utf16 ''unable to reach the chatbot service'')"
  by (simp add: handleSendMessage_settle_def botReply_def settled_def unreachable_def utf16_def)

text \<open>
  Claim C7.  Whatever the outcome of the request, the handler ends with \<^verbatim>\<open>loading\<close>
  false: the part after the \<^verbatim>\<open>await\<close> clears it last, on the success and on the
  failure path, and the whole handler leaves the flag as it was only when it returned
  at once on a blank input.  In the running component, settling the request in flight
  clears the flag.
\<close>

theorem finally_clears_loading:
  "loading (handleSendMessage_settle oc now st) = False \<and>
   loading (handleSendMessage rendered t1 t2 oc t3 st) =
     (if trim (input rendered) = [] then loading st else False) \<and>
   loading (ui (step (Settle oc now) s)) = (if pending s = None then loading (ui s) else False)"
  by (auto simp: handleSendMessage_settle_def handleSendMessage_def handleSendMessage_sync_def
        Let_def split: sum.splits option.splits)

subsection \<open>Submitting\<close>

text \<open>
  Claim C5, as amended.  For every input whose trimmed form is not empty, the handler
  first appends a user message whose text is the input as typed (not trimmed), whose id
  is the length of the rendered transcript plus one and whose timestamp is the clock's
  reading; the placeholder follows it, and the request carries the same text.
\<close>

theorem submit_appends_input_as_typed:
  "trim (input rendered) \<noteq> [] \<Longrightarrow>
   messages (fst (handleSendMessage_sync rendered t1 t2 st)) =
     messages st @
     [\<lparr>id_msg = int (length (messages rendered)) + 1,
       text_msg = JStr (input rendered),
       sender = User,
       timestamp = t1\<rparr>,
      \<lparr>id_msg = int (length (messages rendered)) + 2,
       text_msg = JStr [0x2026],
       sender = Loading,
       timestamp = t2\<rparr>] \<and>
   snd (handleSendMessage_sync rendered t1 t2 st) = Some (query (input rendered))"
  by (simp add: handleSendMessage_sync_def Let_def)

theorem submit_appends_input_as_typed_witness:
  "trim (input (typed (utf16 '' hi ''))) \<noteq> [] \<and>
   messages (fst (handleSendMessage_sync (typed (utf16 '' hi '')) 1 2 (typed (utf16 '' hi '')))) =
     [greeting 0,
      \<lparr>id_msg = 2, text_msg = JStr (utf16 '' hi ''), sender = User, timestamp = 1\<rparr>,
      \<lparr>id_msg = 3, text_msg = JStr [0x2026], sender = Loading, timestamp = 2\<rparr>]"
  using submit_appends_input_as_typed
    [of "typed (utf16 '' hi '')" 1 2 "typed (utf16 '' hi '')"]
  by (simp add: typed_def initial_def trim_def isWhiteSpace_def utf16_def)

text \<open>The input \<^verbatim>\<open>" hi "\<close> trims to \<^verbatim>\<open>"hi"\<close>, and the message stores \<^verbatim>\<open>" hi "\<close>.\<close>

theorem submit_trimmed_counterexample:
  "trim (utf16 '' hi '') = utf16 ''hi'' \<and>
   text_msg (messages (fst (handleSendMessage_sync
       (typed (utf16 '' hi '')) 1 2 (typed (utf16 '' hi '')))) ! 1) = JStr (utf16 '' hi '') \<and>
   text_msg (messages (fst (handleSendMessage_sync
       (typed (utf16 '' hi '')) 1 2 (typed (utf16 '' hi '')))) ! 1) \<noteq> JStr (trim (utf16 '' hi ''))"
  by (simp add: handleSendMessage_sync_def typed_def initial_def Let_def trim_def utf16_def
        isWhiteSpace_def)

text \<open>
  Claim C6.  For every input that trimming leaves empty, the handler changes nothing:
  the state (transcript, text field and flag) is the one it started from, and no
  request is issued; so is the session of the running component.
\<close>

theorem submit_blank_is_noop:
  "trim (input rendered) = [] \<Longrightarrow>
   handleSendMessage_sync rendered t1 t2 st = (st, None) \<and>
   handleSendMessage rendered t1 t2 oc t3 st = st \<and>
   (trim (input (ui s)) = [] \<longrightarrow> step (Send t1 t2) s = s)"
  by (simp add: handleSendMessage_sync_def handleSendMessage_def)

theorem submit_blank_is_noop_witness:
  "trim (input (typed [0x20, 0x09, 0x0A, 0x3000])) = [] \<and>
   handleSendMessage_sync (typed [0x20, 0x09, 0x0A, 0x3000]) 1 2 (typed [0x20, 0x09, 0x0A, 0x3000]) =
     (typed [0x20, 0x09, 0x0A, 0x3000], None) \<and>
   step (Send 1 2) \<lparr>ui = typed [0x20, 0x09, 0x0A, 0x3000], pending = None\<rparr> =
     \<lparr>ui = typed [0x20, 0x09, 0x0A, 0x3000], pending = None\<rparr>"
  using submit_blank_is_noop
    [of "typed [0x20, 0x09, 0x0A, 0x3000]" 1 2 "typed [0x20, 0x09, 0x0A, 0x3000]" FetchRejected 3
        "\<lparr>ui = typed [0x20, 0x09, 0x0A, 0x3000], pending = None\<rparr>"]
  by (simp add: typed_def trim_def isWhiteSpace_def)

subsection \<open>The running component\<close>

text \<open>
  Claim C3.  In every state the component reaches from the greeting by changes of the
  text field, sends and settlings, the transcript holds at most one loading
  placeholder: one when \<^verbatim>\<open>loading\<close> holds (which is when a request is in flight)
  and none otherwise, and only the last message can be a placeholder, so no bot message
  ever follows one.  Settling the request in flight leaves no placeholder and a bot
  message at the end: the placeholder is filtered out in the update that appends the
  reply.
\<close>

theorem at_most_one_placeholder:
  "placeholders (messages (ui (run (start t0) evs))) \<le> 1 \<and>
   placeholders (messages (ui (run (start t0) evs))) =
     (if loading (ui (run (start t0) evs)) then 1 else 0) \<and>
   placeholders (butlast (messages (ui (run (start t0) evs)))) = 0 \<and>
   (pending (run (start t0) evs) = None) = (\<not> loading (ui (run (start t0) evs))) \<and>
   (\<forall>oc now. pending (run (start t0) evs) \<noteq> None \<longrightarrow>
      placeholders (messages (ui (step (Settle oc now) (run (start t0) evs)))) = 0 \<and>
      sender (last (messages (ui (step (Settle oc now) (run (start t0) evs))))) = Bot)"
proof -
  have c: "consistent (run (start t0) evs)"
    by (rule consistent_run [OF consistent_start])
  have p: "placeholders (messages (ui (run (start t0) evs))) =
     (if loading (ui (run (start t0) evs)) then 1 else 0)"
    by (rule consistent_placeholders [OF c])
  from c p show ?thesis
    by (auto simp: consistent_def dest: settle_replaces)
qed

theorem at_most_one_placeholder_witness:
  "placeholders (messages (ui (run (start 0) [Change (utf16 ''hello''), Send 1 2]))) = 1 \<and>
   pending (run (start 0) [Change (utf16 ''hello''), Send 1 2]) \<noteq> None \<and>
   placeholders (messages (ui (step (Settle JsonRejected 3)
       (run (start 0) [Change (utf16 ''hello''), Send 1 2])))) = 0 \<and>
   sender (last (messages (ui (step (Settle JsonRejected 3)
       (run (start 0) [Change (utf16 ''hello''), Send 1 2]))))) = Bot"
proof -
  have p: "pending (run (start 0) [Change (utf16 ''hello''), Send 1 2]) \<noteq> None"
    by (simp add: start_def initial_def handleSendMessage_sync_def Let_def trim_def utf16_def
          isWhiteSpace_def)
  have l: "loading (ui (run (start 0) [Change (utf16 ''hello''), Send 1 2]))"
    by (simp add: start_def initial_def handleSendMessage_sync_def Let_def trim_def utf16_def
          isWhiteSpace_def)
  from p l at_most_one_placeholder [of 0 "[Change (utf16 ''hello''), Send 1 2]"]
  show ?thesis by simp
qed

text \<open>
  Claim C4 fails on the code.  The bot message is numbered by the length of the
  transcript that still holds the placeholder, so after one exchange the transcript
  has three messages and the last id is 4; the next user message is numbered 3 + 1.
\<close>

theorem ids_repeat_after_one_exchange:
  "map id_msg (messages (ui (run (start 0)
      [Change (utf16 ''a''), Send 1 2,
       Settle (Parsed (JObj [(utf16 ''response'', JStr (utf16 ''hi''))])) 3,
       Change (utf16 ''b''), Send 4 5]))) = [1, 2, 4, 4, 5] \<and>
   \<not> distinct (map id_msg (messages (ui (run (start 0)
      [Change (utf16 ''a''), Send 1 2,
       Settle (Parsed (JObj [(utf16 ''response'', JStr (utf16 ''hi''))])) 3,
       Change (utf16 ''b''), Send 4 5]))))"
  by (simp add: start_def initial_def greeting_def handleSendMessage_sync_def
        handleSendMessage_settle_def botReply_def settled_def Let_def trim_def utf16_def
        isWhiteSpace_def)

subsection \<open>The conversation id\<close>




subsection \<open>Saving and restoring\<close>



text \<open>
  Claim C10.  The persist effect writes the document of the whole transcript, one
  entry for each message and the loading placeholder among them.  So when the storage
  accepts the write and the codecs invert each other on it, a component mounted on the
  storage written after a send (before the request settles) shows a transcript that
  holds the placeholder, while \<^verbatim>\<open>loading\<close> is false and no request is in flight.
\<close>

theorem placeholder_survives_reload:
  assumes "trim (input st) \<noteq> []" and "\<not> full s"
    and "msgs = messages (fst (handleSendMessage_sync st t1 t2 st))"
    and "JSON_stringify pf (transcriptJSON pf msgs) \<noteq> []"
    and "JSON_parse pf (JSON_stringify pf (transcriptJSON pf msgs)) = Some (transcriptJSON pf msgs)"
    and "\<forall>m\<in>set msgs. Date_parse pf (toISOString pf (timestamp m)) = Some (timestamp m)"
  shows "getItem (persist pf msgs s) (utf16 ''chat.messages'') =
       Some (JSON_stringify pf (JArr (map (toJSON pf) msgs))) \<and>
     sender (last msgs) = Loading \<and>
     map_option fst (reload pf now (persist pf msgs s)) =
       Some \<lparr>ui = \<lparr>messages = msgs, input = [], loading = False\<rparr>, pending = None\<rparr>"
proof -
  from assms(1,3) have l: "msgs \<noteq> [] \<and> sender (last msgs) = Loading"
    by (simp add: handleSendMessage_sync_def Let_def)
  then have "msgs \<noteq> []" by simp
  from mount_persist [OF this assms(2,4,5,6), of now] l assms(2) show ?thesis
    by (auto simp: getItem_persist transcriptJSON_def reload_def split: option.splits)
qed

theorem placeholder_survives_reload_witness:
  "map_option fst (reload table 9 (persist table
       (messages (fst (handleSendMessage_sync (typed (utf16 ''hello'')) 0 0
          (typed (utf16 ''hello''))))) emptyStorage)) =
     Some \<lparr>ui =
             \<lparr>messages =
                [greeting 0,
                 \<lparr>id_msg = 2, text_msg = JStr (utf16 ''hello''), sender = User, timestamp = 0\<rparr>,
                 \<lparr>id_msg = 3, text_msg = JStr [0x2026], sender = Loading, timestamp = 0\<rparr>],
              input = [], loading = False\<rparr>,
           pending = None\<rparr>"
proof -
  have t: "trim (input (typed (utf16 ''hello''))) \<noteq> []"
    by (simp add: typed_def trim_def isWhiteSpace_def utf16_def)
  have m: "askedAtEpoch =
      messages (fst (handleSendMessage_sync (typed (utf16 ''hello'')) 0 0 (typed (utf16 ''hello''))))"
    using t by (simp add: askedAtEpoch_eq handleSendMessage_sync_def Let_def typed_def initial_def)
  have f: "\<not> full emptyStorage"
    by (simp add: emptyStorage_def)
  from placeholder_survives_reload [OF t f m, of table 9] table_asked
  show ?thesis
    by (simp add: m [symmetric] askedAtEpoch_eq)
qed

end
